theory Spec2Isabelle
  imports Complex_Main
begin

section \<open>Numbers, vectors and exceptions\<close>

text \<open>
  The service (\<^verbatim>\<open>app.py\<close>) compares numpy vectors of floating-point numbers. The model
  reads every float as a real number: rounding error and overflow are not modelled. Two
  special floats that the code relies on are kept as explicit values: the initial
  \<^verbatim>\<open>float("inf")\<close> of \<^verbatim>\<open>match_face\<close>, and the not-a-number that numpy returns for \<^verbatim>\<open>0.0 / 0.0\<close>
  in the cosine similarity.
\<close>

type_synonym vector = "real list"

text \<open>
  Exceptions are values. \<open>ValueError\<close> is what numpy raises for operands whose shapes do not
  fit (its message, which numpy completes with the two shapes, is abridged); \<open>TypeError\<close> is
  what \<^verbatim>\<open>json.dumps\<close> raises for a value of a numpy boolean type (its message names the
  type, \<^verbatim>\<open>bool_\<close> in numpy 1 and \<^verbatim>\<open>bool\<close> in numpy 2; the former is written here);
  \<open>Failure msg\<close> is any exception raised by a decoder or extractor, \<open>msg\<close> being its
  \<^verbatim>\<open>str(e)\<close>.
\<close>

datatype py_exception = ValueError | TypeError | Failure string

fun str_of :: "py_exception \<Rightarrow> string" where
  "str_of ValueError = ''operands could not be broadcast together''"
| "str_of TypeError = ''Object of type bool_ is not JSON serializable''"
| "str_of (Failure msg) = msg"

text \<open>
  \<^verbatim>\<open>a - b\<close> on one-dimensional arrays: elementwise on equal lengths, an operand of length one
  is broadcast, any other pair of lengths raises.
\<close>

definition np_sub :: "vector \<Rightarrow> vector \<Rightarrow> py_exception + vector" where
  "np_sub xs ys =
     (if length xs = length ys then Inr (map2 (-) xs ys)
      else if length ys = 1 then Inr (map (\<lambda>x. x - hd ys) xs)
      else if length xs = 1 then Inr (map (\<lambda>y. hd xs - y) ys)
      else Inl ValueError)"

text \<open>\<^verbatim>\<open>np.linalg.norm(v)\<close>: the Euclidean norm.\<close>

definition np_norm :: "vector \<Rightarrow> real" where
  "np_norm v = sqrt (sum_list (map (\<lambda>x. x * x) v))"

text \<open>\<^verbatim>\<open>np.dot(a, b)\<close> on one-dimensional arrays: lengths must agree.\<close>

definition np_dot :: "vector \<Rightarrow> vector \<Rightarrow> py_exception + real" where
  "np_dot xs ys =
     (if length xs = length ys then Inr (sum_list (map2 (*) xs ys)) else Inl ValueError)"

text \<open>
  Python's \<^verbatim>\<open>round(x, n)\<close>: to the nearest multiple of \<open>10\<^sup>-\<^sup>n\<close>, a tie going to the even
  neighbour.
\<close>

definition rint :: "real \<Rightarrow> int" where
  "rint x =
     (let f = \<lfloor>x\<rfloor>; r = x - of_int f
      in if r < 1 / 2 then f else if 1 / 2 < r then f + 1 else if even f then f else f + 1)"

definition py_round :: "real \<Rightarrow> nat \<Rightarrow> real" where
  "py_round x n = of_int (rint (x * 10 ^ n)) / 10 ^ n"

section \<open>The gallery\<close>

text \<open>
  \<^verbatim>\<open>face_data\<close> and \<^verbatim>\<open>voice_data\<close> are dictionaries from profile name to template, loaded at
  start-up. A dictionary is a list of items in iteration order (keys distinct); a lookup
  is \<open>map_of\<close>.
\<close>

type_synonym gallery = "(string \<times> vector) list"

record app_state =
  face_data :: gallery
  voice_data :: gallery

section \<open>Face identification: \<^verbatim>\<open>match_face\<close>\<close>

text \<open>\<^verbatim>\<open>np.linalg.norm(encoding - known_encoding)\<close>\<close>

definition face_distance :: "vector \<Rightarrow> vector \<Rightarrow> py_exception + real" where
  "face_distance encoding known_encoding =
     (case np_sub encoding known_encoding of
        Inl e \<Rightarrow> Inl e
      | Inr diff \<Rightarrow> Inr (np_norm diff))"

text \<open>The running minimum starts at \<^verbatim>\<open>float("inf")\<close>.\<close>

datatype bound = Infinity | Dist real

fun below :: "real \<Rightarrow> bound \<Rightarrow> bool" where
  "below d Infinity = True"
| "below d (Dist b) = (d < b)"

text \<open>The loop of \<^verbatim>\<open>match_face\<close> over \<^verbatim>\<open>face_data.items()\<close>, on \<open>(best_match, best_dist)\<close>.\<close>

fun match_face_loop ::
  "vector \<Rightarrow> gallery \<Rightarrow> string option \<times> bound \<Rightarrow> py_exception + (string option \<times> bound)"
where
  "match_face_loop encoding [] st = Inr st"
| "match_face_loop encoding ((name, known_encoding) # rest) (best_match, best_dist) =
     (case face_distance encoding known_encoding of
        Inl e \<Rightarrow> Inl e
      | Inr d \<Rightarrow>
          if below d best_dist
          then match_face_loop encoding rest (Some name, Dist d)
          else match_face_loop encoding rest (best_match, best_dist))"

text \<open>\<^verbatim>\<open>max(0.0, 1.0 - best_dist) * 100\<close>; at infinity the maximum is \<open>0.0\<close>.\<close>

fun face_score :: "bound \<Rightarrow> real" where
  "face_score Infinity = 0"
| "face_score (Dist d) = max 0 (1 - d) * 100"

text \<open>\<^verbatim>\<open>best_dist < threshold\<close>\<close>

fun under_threshold :: "bound \<Rightarrow> real \<Rightarrow> bool" where
  "under_threshold Infinity threshold = False"
| "under_threshold (Dist d) threshold = (d < threshold)"

definition match_face ::
  "vector \<Rightarrow> gallery \<Rightarrow> real \<Rightarrow> py_exception + (string option \<times> real)"
where
  "match_face encoding fd threshold =
     (case match_face_loop encoding fd (None, Infinity) of
        Inl e \<Rightarrow> Inl e
      | Inr (best_match, best_dist) \<Rightarrow>
          (let similarity = face_score best_dist
           in if under_threshold best_dist threshold
              then Inr (best_match, similarity)
              else Inr (None, similarity)))"

section \<open>Responses\<close>

text \<open>
  A handler either answers with \<^verbatim>\<open>JSONResponse(status_code, content)\<close> or raises
  \<^verbatim>\<open>HTTPException(status_code, detail)\<close>. The model stops at the \<open>content\<close> handed to
  \<^verbatim>\<open>JSONResponse\<close>; its encoding as JSON text is not modelled.
\<close>

datatype 'a http = JSONResponse nat 'a | HTTPException nat string

text \<open>An entry of \<^verbatim>\<open>matches\<close>, and the value of \<^verbatim>\<open>face_match\<close> and \<^verbatim>\<open>voice_match\<close>.\<close>

record match_entry =
  name :: string
  similarity :: real
  confidence :: string

text \<open>Python's truth value of a name: \<^verbatim>\<open>None\<close> and the empty string are false.\<close>

fun truthy :: "string option \<Rightarrow> bool" where
  "truthy None = False"
| "truthy (Some s) = (s \<noteq> [])"

text \<open>Decimal digits of a number, for the f-strings.\<close>

fun show_nat :: "nat \<Rightarrow> string" where
  "show_nat n =
     (if n < 10 then [''0123456789'' ! n]
      else show_nat (n div 10) @ [''0123456789'' ! (n mod 10)])"

section \<open>Face identification endpoint: \<^verbatim>\<open>recognize_face\<close>\<close>

text \<open>
  An uploaded image is represented by what the collaborators return for it:
  \<open>face_locations\<close> is the outcome of \<^verbatim>\<open>decode_base64_image\<close> followed by
  \<^verbatim>\<open>face_recognition.face_locations\<close> (the boxes found, or the exception raised on the
  way), \<open>face_encodings\<close> the outcome of \<^verbatim>\<open>face_recognition.face_encodings\<close>, which the
  code calls only after a location was found.
\<close>

type_synonym box = "int \<times> int \<times> int \<times> int"

record image =
  face_locations :: "py_exception + box list"
  face_encodings :: "py_exception + vector list"

record face_response =
  success :: bool
  message :: string
  matches :: "match_entry list"

text \<open>The loop over \<^verbatim>\<open>face_encodings\<close> that fills \<^verbatim>\<open>results\<close>.\<close>

fun face_results :: "vector list \<Rightarrow> gallery \<Rightarrow> py_exception + match_entry list" where
  "face_results [] fd = Inr []"
| "face_results (encoding # encodings) fd =
     (case match_face encoding fd (6 / 10) of
        Inl e \<Rightarrow> Inl e
      | Inr (nm, sim) \<Rightarrow>
          (case face_results encodings fd of
             Inl e \<Rightarrow> Inl e
           | Inr results \<Rightarrow>
               if truthy nm
               then Inr (\<lparr>name = the nm, similarity = py_round sim 2,
                          confidence = (if sim > 70 then ''high''
                                        else if sim > 40 then ''medium'' else ''low'')\<rparr>
                         # results)
               else Inr results))"

definition recognize_face :: "app_state \<Rightarrow> image \<Rightarrow> face_response http \<times> app_state" where
  "recognize_face st image_data =
     (case face_locations image_data of
        Inl e \<Rightarrow> (HTTPException 500 (''Face recognition failed: '' @ str_of e), st)
      | Inr locations \<Rightarrow>
          if locations = []
          then (JSONResponse 200
                  \<lparr>success = False, message = ''No face detected in the image'',
                   matches = []\<rparr>, st)
          else
            (case face_encodings image_data of
               Inl e \<Rightarrow> (HTTPException 500 (''Face recognition failed: '' @ str_of e), st)
             | Inr encodings \<Rightarrow>
                 (case face_results encodings (face_data st) of
                    Inl e \<Rightarrow> (HTTPException 500 (''Face recognition failed: '' @ str_of e), st)
                  | Inr results \<Rightarrow>
                      (JSONResponse 200
                         \<lparr>success = True,
                          message = ''Processed '' @ show_nat (length encodings) @ '' face(s)'',
                          matches = results\<rparr>, st))))"

section \<open>Voice identification endpoint: \<^verbatim>\<open>recognize_voice\<close>\<close>

text \<open>
  A numpy float that may be not-a-number. Every comparison with \<open>NaN\<close> is false, and
  Python's \<^verbatim>\<open>max(0, x)\<close> keeps its first argument unless the second is greater.
\<close>

datatype npfloat = NaN | Num real

fun ge :: "npfloat \<Rightarrow> real \<Rightarrow> bool" where
  "ge NaN b = False"
| "ge (Num a) b = (a \<ge> b)"

text \<open>\<^verbatim>\<open>max(0, x * 100)\<close>\<close>

fun percent :: "npfloat \<Rightarrow> real" where
  "percent NaN = 0"
| "percent (Num a) = max 0 (a * 100)"

text \<open>
  \<^verbatim>\<open>np.dot(a, b) / (np.linalg.norm(a) * np.linalg.norm(b))\<close>. A zero denominator means that
  one vector is zero, so the numerator is zero as well and numpy returns not-a-number
  (with a warning, no exception).
\<close>

definition cosine_similarity :: "vector \<Rightarrow> vector \<Rightarrow> py_exception + npfloat" where
  "cosine_similarity a b =
     (case np_dot a b of
        Inl e \<Rightarrow> Inl e
      | Inr p \<Rightarrow>
          (let n = np_norm a * np_norm b
           in if n = 0 then Inr NaN else Inr (Num (p / n))))"

text \<open>
  An uploaded audio file is represented by what the collaborators return for it:
  \<open>wav_data\<close> is the outcome of reading the upload, writing the temporary file and
  \<^verbatim>\<open>preprocess_wav\<close> (the number of samples \<^verbatim>\<open>len(wav_data)\<close>, or the exception raised),
  \<open>embed_utterance\<close> the outcome of \<^verbatim>\<open>voice_encoder.embed_utterance\<close>, which the code calls
  only on at least 16000 samples.
\<close>

record audio =
  wav_data :: "py_exception + nat"
  embed_utterance :: "py_exception + vector"

text \<open>The short-audio answer has no \<^verbatim>\<open>best_similarity\<close> key: \<open>None\<close>.\<close>

record voice_response =
  success :: bool
  message :: string
  matches :: "match_entry list"
  best_similarity :: "real option"

text \<open>
  The loop of \<^verbatim>\<open>recognize_voice\<close> over \<^verbatim>\<open>voice_data.items()\<close>, on
  \<open>(best_match, highest_similarity)\<close>; it starts at \<open>(None, -1)\<close>.
\<close>

fun voice_loop ::
  "vector \<Rightarrow> gallery \<Rightarrow> string option \<times> real \<Rightarrow> py_exception + (string option \<times> real)"
where
  "voice_loop input_embedding [] st = Inr st"
| "voice_loop input_embedding ((nm, stored_embedding) # rest) (best_match, highest_similarity) =
     (case cosine_similarity input_embedding stored_embedding of
        Inl e \<Rightarrow> Inl e
      | Inr NaN \<Rightarrow> voice_loop input_embedding rest (best_match, highest_similarity)
      | Inr (Num sim) \<Rightarrow>
          if sim > highest_similarity
          then voice_loop input_embedding rest (Some nm, sim)
          else voice_loop input_embedding rest (best_match, highest_similarity))"

text \<open>The part of \<^verbatim>\<open>recognize_voice\<close> after the embedding: lines 211 to 242.\<close>

definition voice_identify :: "vector \<Rightarrow> gallery \<Rightarrow> py_exception + voice_response" where
  "voice_identify input_embedding vd =
     (case voice_loop input_embedding vd (None, - 1) of
        Inl e \<Rightarrow> Inl e
      | Inr (best_match, highest_similarity) \<Rightarrow>
          (let similarity_percent = max 0 (highest_similarity * 100);
               results =
                 (if truthy best_match \<and> highest_similarity \<ge> 60 / 100
                  then [\<lparr>name = the best_match,
                         similarity = py_round similarity_percent 2,
                         confidence = (if similarity_percent > 75 then ''high'' else ''medium'')\<rparr>]
                  else [])
           in Inr \<lparr>success = True, message = ''Voice processed successfully'',
                   matches = results,
                   best_similarity =
                     Some (if truthy best_match then py_round similarity_percent 2 else 0)\<rparr>))"

definition recognize_voice :: "app_state \<Rightarrow> audio \<Rightarrow> voice_response http \<times> app_state" where
  "recognize_voice st audio_file =
     (case wav_data audio_file of
        Inl e \<Rightarrow> (HTTPException 500 (''Voice recognition failed: '' @ str_of e), st)
      | Inr n \<Rightarrow>
          if n < 16000
          then (JSONResponse 200
                  \<lparr>success = False, message = ''Audio too short or unclear'',
                   matches = [], best_similarity = None\<rparr>, st)
          else
            (case embed_utterance audio_file of
               Inl e \<Rightarrow> (HTTPException 500 (''Voice recognition failed: '' @ str_of e), st)
             | Inr input_embedding \<Rightarrow>
                 (case voice_identify input_embedding (voice_data st) of
                    Inl e \<Rightarrow> (HTTPException 500 (''Voice recognition failed: '' @ str_of e), st)
                  | Inr content \<Rightarrow> (JSONResponse 200 content, st))))"

section \<open>Verification endpoint: \<^verbatim>\<open>combined_authentication\<close>\<close>

text \<open>
  \<^verbatim>\<open>image_data\<close> and \<^verbatim>\<open>audio_file\<close> are optional form fields; \<open>None\<close> stands for a field that
  Python finds false (missing, or an empty string).
\<close>

record auth_request =
  mode :: string
  profile :: string
  image_data :: "image option"
  audio_file :: "audio option"

record auth_results =
  success :: bool
  message :: string
  face_match :: "match_entry option"
  voice_match :: "match_entry option"
  authentication_passed :: bool

text \<open>
  What one modality's block leaves behind: its success flag, the match record it stored
  (if any) and the text it appended to \<^verbatim>\<open>results["message"]\<close>.
\<close>

type_synonym modality_outcome = "bool \<times> match_entry option \<times> string"

text \<open>The body of the \<^verbatim>\<open>try\<close> of the face block, lines 276 to 306.\<close>

definition face_block :: "gallery \<Rightarrow> string \<Rightarrow> image \<Rightarrow> py_exception + modality_outcome" where
  "face_block fd prof img =
     (case face_locations img of
        Inl e \<Rightarrow> Inl e
      | Inr locations \<Rightarrow>
          if locations \<noteq> [] then
            (case face_encodings img of
               Inl e \<Rightarrow> Inl e
             | Inr [] \<Rightarrow> Inr (False, None, [])
             | Inr (encoding # others) \<Rightarrow>
                 (case map_of fd prof of
                    None \<Rightarrow>
                      Inr (False, None, ''Profile '' @ prof @ '' not found in face models. '')
                  | Some known_encoding \<Rightarrow>
                      (case face_distance encoding known_encoding of
                         Inl e \<Rightarrow> Inl e
                       | Inr d \<Rightarrow>
                           (let sim = max 0 (1 - d) * 100
                            in if d < 6 / 10
                               then Inr (True,
                                      Some \<lparr>name = prof, similarity = py_round sim 2,
                                            confidence =
                                              (if sim > 70 then ''high'' else ''medium'')\<rparr>,
                                      [])
                               else Inr (False,
                                      Some \<lparr>name = ''No match'', similarity = py_round sim 2,
                                            confidence = ''low''\<rparr>,
                                      [])))))
          else Inr (False, None, ''No face detected in image. ''))"

text \<open>The face block with its \<^verbatim>\<open>except\<close> clause, lines 274 to 308.\<close>

definition face_authentication :: "gallery \<Rightarrow> auth_request \<Rightarrow> modality_outcome" where
  "face_authentication fd req =
     (if mode req \<in> {''face'', ''both''} then
        (case image_data req of
           None \<Rightarrow> (False, None, [])
         | Some img \<Rightarrow>
             (case face_block fd (profile req) img of
                Inl e \<Rightarrow> (False, None, ''Face recognition error: '' @ str_of e @ ''. '')
              | Inr outcome \<Rightarrow> outcome))
      else (False, None, []))"

text \<open>The body of the \<^verbatim>\<open>try\<close> of the voice block, lines 313 to 351.\<close>

definition voice_block :: "gallery \<Rightarrow> string \<Rightarrow> audio \<Rightarrow> py_exception + modality_outcome" where
  "voice_block vd prof aud =
     (case wav_data aud of
        Inl e \<Rightarrow> Inl e
      | Inr n \<Rightarrow>
          if n \<ge> 16000 then
            (case embed_utterance aud of
               Inl e \<Rightarrow> Inl e
             | Inr input_embedding \<Rightarrow>
                 (case map_of vd prof of
                    None \<Rightarrow>
                      Inr (False, None, ''Profile '' @ prof @ '' not found in voice models. '')
                  | Some stored_embedding \<Rightarrow>
                      (case cosine_similarity input_embedding stored_embedding of
                         Inl e \<Rightarrow> Inl e
                       | Inr sim \<Rightarrow>
                           (let similarity_percent = percent sim
                            in if ge sim (60 / 100)
                               then Inr (True,
                                      Some \<lparr>name = prof,
                                            similarity = py_round similarity_percent 2,
                                            confidence =
                                              (if similarity_percent > 75
                                               then ''high'' else ''medium'')\<rparr>,
                                      [])
                               else Inr (False,
                                      Some \<lparr>name = ''No match'',
                                            similarity = py_round similarity_percent 2,
                                            confidence = ''low''\<rparr>,
                                      [])))))
          else Inr (False, None, ''Audio too short or unclear. ''))"

text \<open>The voice block with its \<^verbatim>\<open>except\<close> clause, lines 311 to 353.\<close>

definition voice_authentication :: "gallery \<Rightarrow> auth_request \<Rightarrow> modality_outcome" where
  "voice_authentication vd req =
     (if mode req \<in> {''voice'', ''both''} then
        (case audio_file req of
           None \<Rightarrow> (False, None, [])
         | Some aud \<Rightarrow>
             (case voice_block vd (profile req) aud of
                Inl e \<Rightarrow> (False, None, ''Voice recognition error: '' @ str_of e @ ''. '')
              | Inr outcome \<Rightarrow> outcome))
      else (False, None, []))"

text \<open>
  The dictionary \<^verbatim>\<open>results\<close> as the handler returns it, lines 262 to 370. An unknown mode
  runs neither block and leaves both flags false.
\<close>

definition authentication_results :: "app_state \<Rightarrow> auth_request \<Rightarrow> auth_results" where
  "authentication_results st req =
     (case face_authentication (face_data st) req of (face_success, fm, face_msg) \<Rightarrow>
      case voice_authentication (voice_data st) req of (voice_success, vm, voice_msg) \<Rightarrow>
        (let msg = face_msg @ voice_msg;
             passed =
               (if mode req = ''face'' then face_success
                else if mode req = ''voice'' then voice_success
                else if mode req = ''both'' then face_success \<and> voice_success
                else False)
         in \<lparr>success = passed,
             message =
               (if passed then ''Authentication successful for '' @ profile req
                else if msg = [] then ''Authentication failed for '' @ profile req
                else msg),
             face_match = fm,
             voice_match = vm,
             authentication_passed = passed\<rparr>))"

text \<open>
  Every exception of the two blocks is caught inside them, so the handler always reaches
  its \<^verbatim>\<open>return JSONResponse(status_code=200, content=results)\<close>.
\<close>

definition combined_authentication ::
  "app_state \<Rightarrow> auth_request \<Rightarrow> auth_results http \<times> app_state"
where
  "combined_authentication st req = (JSONResponse 200 (authentication_results st req), st)"

section \<open>Profiles endpoint: \<^verbatim>\<open>get_available_profiles\<close>\<close>

record supports_modes =
  face :: bool
  voice :: bool
  both :: bool

record profile_entry =
  name :: string
  has_face_model :: bool
  has_voice_model :: bool
  supports_modes :: supports_modes

record profiles_response =
  profiles :: "profile_entry list"
  total_profiles :: nat

definition available_profile :: "app_state \<Rightarrow> string \<Rightarrow> profile_entry" where
  "available_profile st prof =
     (let has_face = (prof \<in> fst ` set (face_data st));
          has_voice = (prof \<in> fst ` set (voice_data st))
      in \<lparr>name = prof, has_face_model = has_face, has_voice_model = has_voice,
          supports_modes = \<lparr>face = has_face, voice = has_voice,
                             both = (has_face \<and> has_voice)\<rparr>\<rparr>)"

definition get_available_profiles :: "app_state \<Rightarrow> profiles_response \<times> app_state" where
  "get_available_profiles st =
     (let available_profiles = map (available_profile st) [''Fenny'', ''George'', ''Jovin'']
      in (\<lparr>profiles = available_profiles, total_profiles = length available_profiles\<rparr>, st))"

section \<open>Lip-sync endpoint: \<^verbatim>\<open>lip_sync_check\<close>\<close>

record lip_movement =
  frame :: nat
  timestamp :: real
  lip_distance :: real

text \<open>
  The upload is represented by what decoding, the video capture and the face-mesh loop
  produce: the series \<^verbatim>\<open>lip_movements\<close> (or the exception raised on the way), the frame rate
  read from the capture, and \<^verbatim>\<open>len(audio_content)\<close>.
\<close>

record lip_sync_upload =
  lip_movements :: "py_exception + lip_movement list"
  capture_fps :: real
  audio_size :: nat

text \<open>
  A truth value together with the Python type that carries it. A comparison on a numpy
  float, such as \<^verbatim>\<open>movement_variance > movement_threshold\<close>, returns a \<^verbatim>\<open>numpy.bool_\<close>; a
  comparison on a Python integer returns a \<^verbatim>\<open>bool\<close>.
\<close>

datatype flag = Python_bool bool | Numpy_bool bool

fun truth :: "flag \<Rightarrow> bool" where
  "truth (Python_bool b) = b"
| "truth (Numpy_bool b) = b"

text \<open>Python's \<^verbatim>\<open>a and b\<close>: \<open>a\<close> itself when it is false, \<open>b\<close> otherwise.\<close>

definition py_and :: "flag \<Rightarrow> flag \<Rightarrow> flag" where
  "py_and a b = (if truth a then b else a)"

text \<open>
  The response body. Its flags have type \<open>flag\<close> in the dictionary the handler builds and
  type \<open>bool\<close> in the body that is sent.
\<close>

datatype 'b analysis =
    Analysis
      (duration_analyzed : real) (frames_processed : nat) (audio_samples : nat)
      (movement_variance : real) (movement_mean : real)
      (has_significant_movement : 'b) (has_audio : 'b)
  | Analysis_Error
      (duration_analyzed : real) (frames_processed : nat) (audio_samples : nat)
      (error : string)

record 'b lip_sync_response =
  success :: bool
  lip_sync_detected :: 'b
  confidence :: real
  message :: string
  analysis :: "'b analysis"

text \<open>\<^verbatim>\<open>np.mean\<close> and \<^verbatim>\<open>np.var\<close> (the population variance) of a list.\<close>

definition np_mean :: "real list \<Rightarrow> real" where
  "np_mean xs = sum_list xs / real (length xs)"

definition np_var :: "real list \<Rightarrow> real" where
  "np_var xs =
     (let m = np_mean xs
      in sum_list (map (\<lambda>x. (x - m) * (x - m)) xs) / real (length xs))"

text \<open>
  The analysis of the series, lines 465 to 506: the exception of line 467, or the
  dictionary passed as \<^verbatim>\<open>content\<close> on line 493.
\<close>

definition lip_sync_analysis ::
  "lip_movement list \<Rightarrow> real \<Rightarrow> nat \<Rightarrow> py_exception + flag lip_sync_response"
where
  "lip_sync_analysis lms cap_fps audio_sz =
     (if length lms < 10
      then Inl (Failure ''Insufficient video data for lip sync analysis'')
      else
        (let fps = (if cap_fps = 0 then 30 else cap_fps);
             distances = map lip_distance lms;
             variance = np_var distances;
             mean = np_mean distances;
             movement_threshold = 1 / 1000;
             significant = Numpy_bool (variance > movement_threshold);
             audible = Python_bool (audio_sz > 1000);
             detected = py_and significant audible;
             conf = (if truth detected then min (95 / 100) (6 / 10 + variance * 1000)
                     else max (1 / 10) (variance * 500))
         in Inr \<lparr>success = True,
                 lip_sync_detected = detected,
                 confidence = py_round conf 3,
                 message =
                   (if truth detected then ''Lip sync verified successfully!''
                    else ''Lip sync verification failed - insufficient lip movement detected.''),
                 analysis =
                   Analysis (py_round (real (length lms) / fps) 2) (length lms) audio_sz
                     (py_round variance 6) (py_round mean 6) significant audible\<rparr>))"

text \<open>
  \<^verbatim>\<open>JSONResponse(content=...)\<close> encodes the dictionary with \<^verbatim>\<open>json.dumps\<close> while it is
  constructed. A Python \<^verbatim>\<open>bool\<close> is encoded; a \<^verbatim>\<open>numpy.bool_\<close> is not a \<^verbatim>\<open>bool\<close> and raises.
  The numbers of the dictionary are Python integers and floats (a numpy float64 is a
  \<^verbatim>\<open>float\<close>) and are encoded.
\<close>

fun json_flag :: "flag \<Rightarrow> py_exception + bool" where
  "json_flag (Python_bool b) = Inr b"
| "json_flag (Numpy_bool b) = Inl TypeError"

fun json_analysis :: "flag analysis \<Rightarrow> py_exception + bool analysis" where
  "json_analysis (Analysis duration frames samples variance mean significant audible) =
     (case json_flag significant of
        Inl e \<Rightarrow> Inl e
      | Inr s \<Rightarrow>
          (case json_flag audible of
             Inl e \<Rightarrow> Inl e
           | Inr a \<Rightarrow> Inr (Analysis duration frames samples variance mean s a)))"
| "json_analysis (Analysis_Error duration frames samples err) =
     Inr (Analysis_Error duration frames samples err)"

definition render :: "flag lip_sync_response \<Rightarrow> py_exception + bool lip_sync_response" where
  "render content =
     (case json_flag (lip_sync_detected content) of
        Inl e \<Rightarrow> Inl e
      | Inr detected \<Rightarrow>
          (case json_analysis (analysis content) of
             Inl e \<Rightarrow> Inl e
           | Inr a \<Rightarrow>
               Inr \<lparr>success = success content,
                    lip_sync_detected = detected,
                    confidence = confidence content,
                    message = message content,
                    analysis = a\<rparr>))"

text \<open>
  The outer \<^verbatim>\<open>except\<close> clause, lines 518 to 534. Its body holds Python literals and strings
  only, so it is always encoded.
\<close>

definition lip_sync_failure :: "py_exception \<Rightarrow> bool lip_sync_response http" where
  "lip_sync_failure e =
     JSONResponse 500
       \<lparr>success = False,
        lip_sync_detected = False,
        confidence = 0,
        message = ''Error during lip sync analysis: '' @ str_of e,
        analysis = Analysis_Error 0 0 0 (str_of e)\<rparr>"

text \<open>
  The handler. The \<^verbatim>\<open>return JSONResponse(status_code=200, content=...)\<close> of line 491 stands
  inside the \<^verbatim>\<open>try\<close> of line 385, so an exception of the encoding is caught by the outer
  \<^verbatim>\<open>except\<close> clause like any other.
\<close>

definition lip_sync_check :: "lip_sync_upload \<Rightarrow> bool lip_sync_response http" where
  "lip_sync_check up =
     (case lip_movements up of
        Inl e \<Rightarrow> lip_sync_failure e
      | Inr lms \<Rightarrow>
          (case lip_sync_analysis lms (capture_fps up) (audio_size up) of
             Inl e \<Rightarrow> lip_sync_failure e
           | Inr content \<Rightarrow>
               (case render content of
                  Inl e \<Rightarrow> lip_sync_failure e
                | Inr body \<Rightarrow> JSONResponse 200 body)))"

section \<open>Sample inputs\<close>

text \<open>
  Ten frames in which the lips are closed but for the last one: the mean gap is \<open>1/70\<close> and
  the variance \<open>9/4900\<close>.
\<close>

definition ten_frames :: "lip_movement list" where
  "ten_frames =
     map (\<lambda>(i, d). \<lparr>frame = i, timestamp = real i, lip_distance = d\<rparr>)
       [(1, 0), (2, 0), (3, 0), (4, 0), (5, 0), (6, 0), (7, 0), (8, 0), (9, 0), (10, 1 / 7)]"

section \<open>Verification succeeded, in the specification's words\<close>

text \<open>
  Face verification succeeded: an image was supplied, a face was detected in it, the profile
  has a face template, and the L2 distance of the first encoding to the template is below
  0.6.
\<close>

definition spec_face_verified :: "gallery \<Rightarrow> string \<Rightarrow> image option \<Rightarrow> bool" where
  "spec_face_verified fd prof supplied =
     (case supplied of
        None \<Rightarrow> False
      | Some img \<Rightarrow>
          (case (face_locations img, face_encodings img, map_of fd prof) of
             (Inr (location # locations), Inr (encoding # others), Some template) \<Rightarrow>
               (case face_distance encoding template of
                  Inr d \<Rightarrow> d < 6 / 10
                | Inl e \<Rightarrow> False)
           | _ \<Rightarrow> False))"

text \<open>
  Voice verification succeeded: audio was supplied, its waveform has at least 16000
  samples, the profile has a voice template, and the cosine similarity of the embedding
  with the template is at least 0.60.
\<close>

definition spec_voice_verified :: "gallery \<Rightarrow> string \<Rightarrow> audio option \<Rightarrow> bool" where
  "spec_voice_verified vd prof supplied =
     (case supplied of
        None \<Rightarrow> False
      | Some aud \<Rightarrow>
          (case (wav_data aud, embed_utterance aud, map_of vd prof) of
             (Inr n, Inr embedding, Some template) \<Rightarrow>
               n \<ge> 16000 \<and>
               (case cosine_similarity embedding template of
                  Inr (Num s) \<Rightarrow> s \<ge> 60 / 100
                | _ \<Rightarrow> False)
           | _ \<Rightarrow> False))"

section \<open>The selected entry, in the specification's words\<close>

text \<open>
  Among the distances to the gallery's entries, listed in iteration order, the selected
  entry is the first one that attains the minimum.
\<close>

definition spec_first_min_index :: "real list \<Rightarrow> nat" where
  "spec_first_min_index ds = length (takeWhile (\<lambda>d. d \<noteq> Min (set ds)) ds)"

text \<open>
  Among the cosine similarities with the gallery's entries, listed in iteration order, the
  best candidate is the first one that attains the maximum.
\<close>

definition spec_first_max_index :: "real list \<Rightarrow> nat" where
  "spec_first_max_index ss = length (takeWhile (\<lambda>s. s \<noteq> Max (set ss)) ss)"

section \<open>Properties\<close>

subsection \<open>The profiles endpoint\<close>

text \<open>
  C9. Whatever the gallery holds, the profiles endpoint lists exactly \<open>Fenny\<close>, \<open>George\<close> and
  \<open>Jovin\<close>, in that order, each with its availability flags read from the gallery, and
  \<open>total_profiles\<close> is 3. A name enrolled under another key is not listed; the three names are
  listed also when the gallery has none of them.
\<close>

theorem list_profiles_fixed:
  "fst (get_available_profiles st) =
     \<lparr>profiles =
        map (\<lambda>p. \<lparr>name = p,
                  has_face_model = (p \<in> fst ` set (face_data st)),
                  has_voice_model = (p \<in> fst ` set (voice_data st)),
                  supports_modes =
                    \<lparr>face = (p \<in> fst ` set (face_data st)),
                     voice = (p \<in> fst ` set (voice_data st)),
                     both = (p \<in> fst ` set (face_data st) \<and> p \<in> fst ` set (voice_data st))\<rparr>\<rparr>)
          [''Fenny'', ''George'', ''Jovin''],
      total_profiles = 3\<rparr>
   \<and> map profile_entry.name (profiles (fst (get_available_profiles st))) =
       [''Fenny'', ''George'', ''Jovin'']"
  by (simp add: get_available_profiles_def available_profile_def Let_def)

theorem list_profiles_fixed_witness:
  "map (\<lambda>p. (profile_entry.name p, has_face_model p, has_voice_model p))
     (profiles (fst (get_available_profiles
        \<lparr>face_data = [(''Zed'', [1]), (''George'', [0])], voice_data = [(''Zed'', [1])]\<rparr>)))
   = [(''Fenny'', False, False), (''George'', True, False), (''Jovin'', False, False)]"
  using list_profiles_fixed
    [of "\<lparr>face_data = [(''Zed'', [1]), (''George'', [0])], voice_data = [(''Zed'', [1])]\<rparr>"]
  by simp

subsection \<open>Matching reads the gallery only\<close>

text \<open>
  C8. Face identification, voice identification and verification of either modality hand
  back the state they were given: \<open>face_data\<close> and \<open>voice_data\<close> are unchanged for every input.
\<close>

theorem matching_preserves_gallery:
  "snd (recognize_face st img) = st
   \<and> snd (recognize_voice st aud) = st
   \<and> snd (combined_authentication st req) = st"
  by (simp add: recognize_face_def recognize_voice_def combined_authentication_def Let_def
      split: sum.split prod.split)

theorem matching_preserves_gallery_witness:
  "snd (recognize_face \<lparr>face_data = [(''A'', [0])], voice_data = [(''A'', [1])]\<rparr>
          \<lparr>face_locations = Inr [(0, 1, 1, 0)], face_encodings = Inr [[0]]\<rparr>)
     = \<lparr>face_data = [(''A'', [0])], voice_data = [(''A'', [1])]\<rparr>
   \<and> snd (recognize_voice \<lparr>face_data = [(''A'', [0])], voice_data = [(''A'', [1])]\<rparr>
          \<lparr>wav_data = Inr 16000, embed_utterance = Inr [1]\<rparr>)
     = \<lparr>face_data = [(''A'', [0])], voice_data = [(''A'', [1])]\<rparr>
   \<and> snd (combined_authentication \<lparr>face_data = [(''A'', [0])], voice_data = [(''A'', [1])]\<rparr>
          \<lparr>mode = ''both'', profile = ''A'',
           image_data = Some \<lparr>face_locations = Inr [(0, 1, 1, 0)], face_encodings = Inr [[0]]\<rparr>,
           audio_file = Some \<lparr>wav_data = Inr 16000, embed_utterance = Inr [1]\<rparr>\<rparr>)
     = \<lparr>face_data = [(''A'', [0])], voice_data = [(''A'', [1])]\<rparr>"
  by (rule matching_preserves_gallery)

subsection \<open>Lip sync: too few frames\<close>

text \<open>
  C6. A lip-movement series of fewer than 10 entries fails with the insufficient-video-data
  exception, whatever the audio size and the lip distances; the failure is answered as a
  structured body with \<open>success = False\<close>, \<open>lip_sync_detected = False\<close> and confidence 0
  (under status code 500).
\<close>

theorem lip_sync_insufficient:
  assumes "lip_movements up = Inr lms" and "length lms < 10"
  shows "lip_sync_check up =
     JSONResponse 500
       \<lparr>success = False, lip_sync_detected = False, confidence = 0,
        message = ''Error during lip sync analysis: Insufficient video data for lip sync analysis'',
        analysis = Analysis_Error 0 0 0 ''Insufficient video data for lip sync analysis''\<rparr>"
  using assms by (simp add: lip_sync_check_def lip_sync_analysis_def lip_sync_failure_def)

theorem lip_sync_insufficient_witness:
  "lip_sync_check
     \<lparr>lip_movements =
        Inr [\<lparr>frame = 1, timestamp = 0, lip_distance = 0\<rparr>,
             \<lparr>frame = 2, timestamp = 1, lip_distance = 5\<rparr>,
             \<lparr>frame = 3, timestamp = 2, lip_distance = 0\<rparr>],
      capture_fps = 1, audio_size = 50000\<rparr>
   = JSONResponse 500
       \<lparr>success = False, lip_sync_detected = False, confidence = 0,
        message = ''Error during lip sync analysis: Insufficient video data for lip sync analysis'',
        analysis = Analysis_Error 0 0 0 ''Insufficient video data for lip sync analysis''\<rparr>"
proof -
  have len: "length [\<lparr>frame = 1, timestamp = 0, lip_distance = 0\<rparr>,
             \<lparr>frame = 2, timestamp = 1, lip_distance = 5\<rparr>,
             \<lparr>frame = 3, timestamp = 2, lip_distance = (0::real)\<rparr>] < 10"
    by simp
  show ?thesis
    by (rule lip_sync_insufficient [OF _ len]) simp
qed

subsection \<open>Lip sync: the verdict\<close>

lemma ten_frames_stats:
  "length ten_frames = 10"
  "np_mean (map lip_distance ten_frames) = 1 / 70"
  "np_var (map lip_distance ten_frames) = 9 / 4900"
  by (simp_all add: ten_frames_def np_var_def np_mean_def Let_def)

text \<open>
  What the handler computes for a series of at least 10 entries: the verdict
  \<open>variance > 0.001 \<and> audio size > 1000\<close>, the confidence of the specification rounded to
  three decimals, the variance and the mean rounded to six, the frame count and both flags.
  The movement flag is a numpy boolean in every case.
\<close>

lemma lip_sync_analysis_content:
  assumes "10 \<le> length lms"
  shows "\<exists>content. lip_sync_analysis lms cap_fps audio_sz = Inr content
     \<and> truth (lip_sync_detected content)
        = (np_var (map lip_distance lms) > 1 / 1000 \<and> audio_sz > 1000)
     \<and> confidence content =
         py_round
           (if np_var (map lip_distance lms) > 1 / 1000 \<and> audio_sz > 1000
            then min (95 / 100) (6 / 10 + np_var (map lip_distance lms) * 1000)
            else max (1 / 10) (np_var (map lip_distance lms) * 500)) 3
     \<and> analysis content =
         Analysis
           (py_round (real (length lms) / (if cap_fps = 0 then 30 else cap_fps)) 2)
           (length lms) audio_sz
           (py_round (np_var (map lip_distance lms)) 6)
           (py_round (np_mean (map lip_distance lms)) 6)
           (Numpy_bool (np_var (map lip_distance lms) > 1 / 1000))
           (Python_bool (audio_sz > 1000))"
  using assms by (simp add: lip_sync_analysis_def Let_def py_and_def)

lemma render_numpy_flag:
  assumes "10 \<le> length lms"
    and "lip_sync_analysis lms cap_fps audio_sz = Inr content"
  shows "render content = Inl TypeError"
proof -
  from assms have "analysis content =
         Analysis
           (py_round (real (length lms) / (if cap_fps = 0 then 30 else cap_fps)) 2)
           (length lms) audio_sz
           (py_round (np_var (map lip_distance lms)) 6)
           (py_round (np_mean (map lip_distance lms)) 6)
           (Numpy_bool (np_var (map lip_distance lms) > 1 / 1000))
           (Python_bool (audio_sz > 1000))"
    using lip_sync_analysis_content [OF assms(1), of cap_fps audio_sz] by auto
  then show ?thesis
    by (cases "lip_sync_detected content") (simp_all add: render_def)
qed

text \<open>
  C7. The claim is that at least 10 entries give \<open>lip_sync_detected\<close>, the confidence and an
  analysis object with the variance, the mean, the frame count and both flags. The handler
  computes them, but the movement flag it puts into the content is a numpy boolean:
  building the 200 response raises, and every series of at least 10 entries is answered by
  the failure body of the \<^verbatim>\<open>except\<close> clause, under status code 500, with \<open>success\<close> and
  \<open>lip_sync_detected\<close> false, confidence 0 and no variance, mean or flags.
\<close>

theorem lip_sync_encoding_fails:
  assumes "lip_movements up = Inr lms" and "10 \<le> length lms"
  shows "lip_sync_check up =
     JSONResponse 500
       \<lparr>success = False, lip_sync_detected = False, confidence = 0,
        message = ''Error during lip sync analysis: '' @ str_of TypeError,
        analysis = Analysis_Error 0 0 0 (str_of TypeError)\<rparr>"
proof -
  obtain content where c: "lip_sync_analysis lms (capture_fps up) (audio_size up) = Inr content"
    using lip_sync_analysis_content [OF assms(2)] by blast
  have "render content = Inl TypeError"
    by (rule render_numpy_flag [OF assms(2) c])
  with assms(1) c show ?thesis
    by (simp add: lip_sync_check_def lip_sync_failure_def)
qed

theorem lip_sync_encoding_fails_witness:
  "lip_sync_check \<lparr>lip_movements = Inr ten_frames, capture_fps = 0, audio_size = 2000\<rparr>
     = JSONResponse 500
         \<lparr>success = False, lip_sync_detected = False, confidence = 0,
          message =
            ''Error during lip sync analysis: Object of type bool_ is not JSON serializable'',
          analysis = Analysis_Error 0 0 0 ''Object of type bool_ is not JSON serializable''\<rparr>
   \<and> 1 / 1000 < np_var (map lip_distance ten_frames)"
  using lip_sync_encoding_fails
    [of "\<lparr>lip_movements = Inr ten_frames, capture_fps = 0, audio_size = 2000\<rparr>" ten_frames]
  by (simp add: ten_frames_stats)

subsection \<open>Verification: fusion of the two modalities\<close>

lemma face_success_iff:
  "mode req = ''face'' \<or> mode req = ''both'' \<Longrightarrow>
   fst (face_authentication fd req) = spec_face_verified fd (profile req) (image_data req)"
  by (auto simp add: face_authentication_def face_block_def spec_face_verified_def Let_def
      split: option.split sum.split list.split)

lemma voice_success_iff:
  "mode req = ''voice'' \<or> mode req = ''both'' \<Longrightarrow>
   fst (voice_authentication vd req) = spec_voice_verified vd (profile req) (audio_file req)"
  by (auto simp add: voice_authentication_def voice_block_def spec_voice_verified_def Let_def
      split: option.split sum.split list.split npfloat.split)

lemma face_absent: "image_data req = None \<Longrightarrow> face_authentication fd req = (False, None, [])"
  by (simp add: face_authentication_def)

lemma voice_absent: "audio_file req = None \<Longrightarrow> voice_authentication vd req = (False, None, [])"
  by (simp add: voice_authentication_def)

lemma passed_both:
  "mode req = ''both'' \<Longrightarrow>
   authentication_passed (authentication_results st req)
     = (fst (face_authentication (face_data st) req)
        \<and> fst (voice_authentication (voice_data st) req))
   \<and> auth_results.success (authentication_results st req)
     = (fst (face_authentication (face_data st) req)
        \<and> fst (voice_authentication (voice_data st) req))"
  by (simp add: authentication_results_def Let_def split: prod.split)

lemma np_norm_single: "np_norm [x] = \<bar>x\<bar>"
  by (simp add: np_norm_def)

lemma face_distance_single: "face_distance [x] [y] = Inr \<bar>x - y\<bar>"
  by (simp add: face_distance_def np_sub_def np_norm_single)

lemma face_distance_self: "face_distance xs xs = Inr 0"
  by (simp add: face_distance_def np_sub_def np_norm_def zip_same_conv_map comp_def)

lemma cosine_similarity_single:
  "x \<noteq> 0 \<Longrightarrow> y \<noteq> 0 \<Longrightarrow> cosine_similarity [x] [y] = Inr (Num (x * y / (\<bar>x\<bar> * \<bar>y\<bar>)))"
  by (simp add: cosine_similarity_def np_dot_def np_norm_single)

text \<open>
  C1. In mode \<open>both\<close>, \<open>authentication_passed\<close> (and \<open>success\<close>) is true exactly when face
  verification succeeded and voice verification succeeded; the answer is a 200 response;
  a modality whose input is absent keeps its flag false, stores no match and appends
  nothing to the message.
\<close>

theorem both_mode_fusion:
  assumes "mode req = ''both''"
  shows "authentication_passed (authentication_results st req)
       = (spec_face_verified (face_data st) (profile req) (image_data req)
          \<and> spec_voice_verified (voice_data st) (profile req) (audio_file req))
     \<and> auth_results.success (authentication_results st req)
       = authentication_passed (authentication_results st req)
     \<and> fst (combined_authentication st req) = JSONResponse 200 (authentication_results st req)
     \<and> (image_data req = None \<longrightarrow>
          face_authentication (face_data st) req = (False, None, []))
     \<and> (audio_file req = None \<longrightarrow>
          voice_authentication (voice_data st) req = (False, None, []))"
  using assms passed_both [of req st] face_success_iff [of req "face_data st"]
    voice_success_iff [of req "voice_data st"]
  by (simp add: face_absent voice_absent combined_authentication_def)

theorem both_mode_fusion_witness:
  "authentication_passed
     (authentication_results \<lparr>face_data = [(''A'', [0])], voice_data = [(''A'', [1])]\<rparr>
        \<lparr>mode = ''both'', profile = ''A'',
         image_data = Some \<lparr>face_locations = Inr [(0, 1, 1, 0)], face_encodings = Inr [[1 / 2]]\<rparr>,
         audio_file = Some \<lparr>wav_data = Inr 16000, embed_utterance = Inr [2]\<rparr>\<rparr>)
   \<and> \<not> authentication_passed
     (authentication_results \<lparr>face_data = [(''A'', [0])], voice_data = [(''A'', [1])]\<rparr>
        \<lparr>mode = ''both'', profile = ''A'',
         image_data = Some \<lparr>face_locations = Inr [(0, 1, 1, 0)], face_encodings = Inr [[1 / 2]]\<rparr>,
         audio_file = None\<rparr>)
   \<and> voice_authentication [(''A'', [1])]
        \<lparr>mode = ''both'', profile = ''A'',
         image_data = Some \<lparr>face_locations = Inr [(0, 1, 1, 0)], face_encodings = Inr [[1 / 2]]\<rparr>,
         audio_file = None\<rparr> = (False, None, [])"
  using both_mode_fusion
      [of "\<lparr>mode = ''both'', profile = ''A'',
         image_data = Some \<lparr>face_locations = Inr [(0, 1, 1, 0)], face_encodings = Inr [[1 / 2]]\<rparr>,
         audio_file = Some \<lparr>wav_data = Inr 16000, embed_utterance = Inr [2]\<rparr>\<rparr>"
        "\<lparr>face_data = [(''A'', [0])], voice_data = [(''A'', [1])]\<rparr>"]
    both_mode_fusion
      [of "\<lparr>mode = ''both'', profile = ''A'',
         image_data = Some \<lparr>face_locations = Inr [(0, 1, 1, 0)], face_encodings = Inr [[1 / 2]]\<rparr>,
         audio_file = None\<rparr>"
        "\<lparr>face_data = [(''A'', [0])], voice_data = [(''A'', [1])]\<rparr>"]
  by (simp add: spec_face_verified_def spec_voice_verified_def face_distance_single
      cosine_similarity_single)

subsection \<open>Verification: the face outcome\<close>

lemma face_authentication_reached:
  assumes "mode req = ''face'' \<or> mode req = ''both''"
    and "image_data req = Some img"
    and "face_locations img = Inr (location # locations)"
    and "face_encodings img = Inr (encoding # others)"
    and "map_of fd (profile req) = Some template"
    and "face_distance encoding template = Inr d"
  shows "face_authentication fd req =
     (if d < 6 / 10
      then (True,
            Some \<lparr>match_entry.name = profile req, similarity = py_round (max 0 (1 - d) * 100) 2,
                  match_entry.confidence = (if max 0 (1 - d) * 100 > 70 then ''high'' else ''medium'')\<rparr>,
            [])
      else (False,
            Some \<lparr>match_entry.name = ''No match'', similarity = py_round (max 0 (1 - d) * 100) 2,
                  match_entry.confidence = ''low''\<rparr>,
            []))"
  using assms by (auto simp add: face_authentication_def face_block_def Let_def)

lemma face_match_results:
  "face_match (authentication_results st req) = fst (snd (face_authentication (face_data st) req))"
  by (simp add: authentication_results_def Let_def split: prod.split)


lemma py_round_100: "py_round 100 2 = 100"
  by (simp add: py_round_def rint_def Let_def)

text \<open>
  C2 as stated: a distance below 0.6 gives a positive record whose score is
  \<open>max 0 (1 - distance) * 100\<close>. At distance \<open>1/3\<close> that is \<open>200/3\<close>, and the record carries
  \<open>66.67\<close>: the handler rounds the score to two decimals.
\<close>

theorem face_verification_score_counterexample:
  "face_match
     (authentication_results \<lparr>face_data = [(''A'', [1 / 3])], voice_data = []\<rparr>
        \<lparr>mode = ''face'', profile = ''A'',
         image_data = Some \<lparr>face_locations = Inr [(0, 1, 1, 0)], face_encodings = Inr [[0]]\<rparr>,
         audio_file = None\<rparr>)
     = Some \<lparr>match_entry.name = ''A'', similarity = 6667 / 100, match_entry.confidence = ''medium''\<rparr>
   \<and> face_distance [0] [1 / 3] = Inr (1 / 3)
   \<and> max 0 (1 - 1 / 3) * 100 = (200 / 3 :: real)
   \<and> (6667 / 100 :: real) \<noteq> 200 / 3"
  by (simp add: face_match_results face_authentication_def face_block_def Let_def
      face_distance_single py_round_def rint_def)

text \<open>
  C2, amended. When face verification reaches the comparison with the profile's template,
  at distance \<open>d\<close>: below 0.6 the outcome is a positive record naming the profile, its
  similarity \<open>max 0 (1 - d) * 100\<close> rounded to two decimals, its confidence \<open>high\<close> when the
  unrounded score exceeds 70 and \<open>medium\<close> otherwise; from 0.6 on it is a record labelled
  \<open>No match\<close> with the rounded score and confidence \<open>low\<close>. Identical vectors are at distance
  0 and give similarity 100, confidence \<open>high\<close>, matched.
\<close>

theorem face_verification_outcome:
  assumes "mode req = ''face'' \<or> mode req = ''both''"
    and "image_data req = Some img"
    and "face_locations img = Inr (location # locations)"
    and "face_encodings img = Inr (encoding # others)"
    and "map_of (face_data st) (profile req) = Some template"
    and "face_distance encoding template = Inr d"
  shows "fst (face_authentication (face_data st) req) = (d < 6 / 10)
     \<and> face_match (authentication_results st req) =
         Some (if d < 6 / 10
               then \<lparr>match_entry.name = profile req, similarity = py_round (max 0 (1 - d) * 100) 2,
                     match_entry.confidence = (if max 0 (1 - d) * 100 > 70 then ''high'' else ''medium'')\<rparr>
               else \<lparr>match_entry.name = ''No match'', similarity = py_round (max 0 (1 - d) * 100) 2,
                     match_entry.confidence = ''low''\<rparr>)
     \<and> (d = 0 \<longrightarrow>
          face_match (authentication_results st req) =
            Some \<lparr>match_entry.name = profile req, similarity = 100, match_entry.confidence = ''high''\<rparr>)
     \<and> (encoding = template \<longrightarrow> d = 0)"
proof -
  note fa = face_authentication_reached [OF assms]
  have "d = 0" if "encoding = template"
    using that assms(6) by (simp add: face_distance_self)
  then show ?thesis
    by (simp add: face_match_results fa py_round_100)
qed

theorem face_verification_outcome_witness:
  "face_match
     (authentication_results \<lparr>face_data = [(''A'', [1, 2])], voice_data = []\<rparr>
        \<lparr>mode = ''face'', profile = ''A'',
         image_data = Some \<lparr>face_locations = Inr [(0, 1, 1, 0)], face_encodings = Inr [[1, 2]]\<rparr>,
         audio_file = None\<rparr>)
     = Some \<lparr>match_entry.name = ''A'', similarity = 100, match_entry.confidence = ''high''\<rparr>
   \<and> face_match
     (authentication_results \<lparr>face_data = [(''A'', [0])], voice_data = []\<rparr>
        \<lparr>mode = ''both'', profile = ''A'',
         image_data = Some \<lparr>face_locations = Inr [(0, 1, 1, 0)], face_encodings = Inr [[4 / 5]]\<rparr>,
         audio_file = None\<rparr>)
     = Some \<lparr>match_entry.name = ''No match'', similarity = 20, match_entry.confidence = ''low''\<rparr>"
proof -
  have a: "face_distance [1, 2] [1, 2] = Inr 0" by (rule face_distance_self)
  have b: "face_distance [4 / 5] [0] = Inr (4 / 5)" by (simp add: face_distance_single)
  show ?thesis
    using face_verification_outcome
        [where req = "\<lparr>mode = ''face'', profile = ''A'',
           image_data = Some \<lparr>face_locations = Inr [(0, 1, 1, 0)], face_encodings = Inr [[1, 2]]\<rparr>,
           audio_file = None\<rparr>"
          and st = "\<lparr>face_data = [(''A'', [1, 2])], voice_data = []\<rparr>", OF _ _ _ _ _ a]
      face_verification_outcome
        [where req = "\<lparr>mode = ''both'', profile = ''A'',
           image_data = Some \<lparr>face_locations = Inr [(0, 1, 1, 0)], face_encodings = Inr [[4 / 5]]\<rparr>,
           audio_file = None\<rparr>"
          and st = "\<lparr>face_data = [(''A'', [0])], voice_data = []\<rparr>", OF _ _ _ _ _ b]
    by (simp add: py_round_def rint_def)
qed

subsection \<open>Verification: when an outcome record is stored\<close>









subsection \<open>Only the first detected face is verified\<close>

lemma face_block_first:
  "face_block fd prof \<lparr>face_locations = locs, face_encodings = Inr (e # others)\<rparr>
   = face_block fd prof \<lparr>face_locations = locs, face_encodings = Inr [e]\<rparr>"
  by (cases locs) (simp_all add: face_block_def)

lemma face_authentication_first:
  "face_authentication fd
     (req\<lparr>image_data := Some \<lparr>face_locations = locs, face_encodings = Inr (e # others)\<rparr>\<rparr>)
   = face_authentication fd
     (req\<lparr>image_data := Some \<lparr>face_locations = locs, face_encodings = Inr [e]\<rparr>\<rparr>)"
  unfolding face_authentication_def
  by (simp add: face_block_first [of fd _ locs e others])

lemma voice_authentication_image:
  "voice_authentication vd (req\<lparr>image_data := i\<rparr>) = voice_authentication vd req"
  by (simp add: voice_authentication_def split: option.split)

lemma combined_authentication_cong:
  assumes "face_authentication (face_data st) r = face_authentication (face_data st) r'"
    and "voice_authentication (voice_data st) r = voice_authentication (voice_data st) r'"
    and "mode r = mode r'" and "profile r = profile r'"
  shows "combined_authentication st r = combined_authentication st r'"
  unfolding combined_authentication_def authentication_results_def assms ..

lemma face_authentication_first_compared:
  assumes "mode req = ''face'' \<or> mode req = ''both''"
    and "map_of fd (profile req) = Some template"
    and "face_distance e template = Inr d"
  shows "face_authentication fd
     (req\<lparr>image_data :=
        Some \<lparr>face_locations = Inr (location # locations),
              face_encodings = Inr (e # others)\<rparr>\<rparr>) =
     (if d < 6 / 10
      then (True,
            Some \<lparr>match_entry.name = profile req,
                  similarity = py_round (max 0 (1 - d) * 100) 2,
                  match_entry.confidence =
                    (if max 0 (1 - d) * 100 > 70 then ''high'' else ''medium'')\<rparr>,
            [])
      else (False,
            Some \<lparr>match_entry.name = ''No match'',
                  similarity = py_round (max 0 (1 - d) * 100) 2,
                  match_entry.confidence = ''low''\<rparr>,
            []))"
  using assms by (auto simp add: face_authentication_def face_block_def Let_def)

text \<open>
  C10. In the verification endpoint, when the extractor returns several face encodings, the
  answer is the one given for the first encoding alone: the other encodings have no effect.
  When a face was located and the profile has a template, the stored record is the one
  computed from the distance \<open>d\<close> between the first encoding and that template: below 0.6
  the positive record of the profile, from 0.6 on the \<open>No match\<close> record, each with the
  similarity \<open>max 0 (1 - d) * 100\<close> rounded to two decimals; the face flag is \<open>d < 0.6\<close>.
\<close>

theorem first_encoding_only:
  "combined_authentication st
     (req\<lparr>image_data := Some \<lparr>face_locations = locs, face_encodings = Inr (e # others)\<rparr>\<rparr>)
   = combined_authentication st
     (req\<lparr>image_data := Some \<lparr>face_locations = locs, face_encodings = Inr [e]\<rparr>\<rparr>)
   \<and> ((mode req = ''face'' \<or> mode req = ''both'')
        \<and> locs = Inr (location # locations)
        \<and> map_of (face_data st) (profile req) = Some template
        \<and> face_distance e template = Inr d
      \<longrightarrow> face_match
            (authentication_results st
               (req\<lparr>image_data :=
                  Some \<lparr>face_locations = locs, face_encodings = Inr (e # others)\<rparr>\<rparr>))
          = Some (if d < 6 / 10
                  then \<lparr>match_entry.name = profile req,
                        similarity = py_round (max 0 (1 - d) * 100) 2,
                        match_entry.confidence =
                          (if max 0 (1 - d) * 100 > 70 then ''high'' else ''medium'')\<rparr>
                  else \<lparr>match_entry.name = ''No match'',
                        similarity = py_round (max 0 (1 - d) * 100) 2,
                        match_entry.confidence = ''low''\<rparr>)
        \<and> fst (face_authentication (face_data st)
                 (req\<lparr>image_data :=
                    Some \<lparr>face_locations = locs, face_encodings = Inr (e # others)\<rparr>\<rparr>))
          = (d < 6 / 10))"
proof (intro conjI impI)
  show "combined_authentication st
     (req\<lparr>image_data := Some \<lparr>face_locations = locs, face_encodings = Inr (e # others)\<rparr>\<rparr>)
   = combined_authentication st
     (req\<lparr>image_data := Some \<lparr>face_locations = locs, face_encodings = Inr [e]\<rparr>\<rparr>)"
  proof (rule combined_authentication_cong)
    show "face_authentication (face_data st)
        (req\<lparr>image_data := Some \<lparr>face_locations = locs, face_encodings = Inr (e # others)\<rparr>\<rparr>)
      = face_authentication (face_data st)
        (req\<lparr>image_data := Some \<lparr>face_locations = locs, face_encodings = Inr [e]\<rparr>\<rparr>)"
      by (rule face_authentication_first)
  qed (simp_all add: voice_authentication_image)
next
  assume h: "(mode req = ''face'' \<or> mode req = ''both'')
        \<and> locs = Inr (location # locations)
        \<and> map_of (face_data st) (profile req) = Some template
        \<and> face_distance e template = Inr d"
  then have fa: "face_authentication (face_data st)
     (req\<lparr>image_data :=
        Some \<lparr>face_locations = locs, face_encodings = Inr (e # others)\<rparr>\<rparr>) =
     (if d < 6 / 10
      then (True,
            Some \<lparr>match_entry.name = profile req,
                  similarity = py_round (max 0 (1 - d) * 100) 2,
                  match_entry.confidence =
                    (if max 0 (1 - d) * 100 > 70 then ''high'' else ''medium'')\<rparr>,
            [])
      else (False,
            Some \<lparr>match_entry.name = ''No match'',
                  similarity = py_round (max 0 (1 - d) * 100) 2,
                  match_entry.confidence = ''low''\<rparr>,
            []))"
    using face_authentication_first_compared
      [of req "face_data st" template e d location locations others]
    by simp
  show "face_match
            (authentication_results st
               (req\<lparr>image_data :=
                  Some \<lparr>face_locations = locs, face_encodings = Inr (e # others)\<rparr>\<rparr>))
          = Some (if d < 6 / 10
                  then \<lparr>match_entry.name = profile req,
                        similarity = py_round (max 0 (1 - d) * 100) 2,
                        match_entry.confidence =
                          (if max 0 (1 - d) * 100 > 70 then ''high'' else ''medium'')\<rparr>
                  else \<lparr>match_entry.name = ''No match'',
                        similarity = py_round (max 0 (1 - d) * 100) 2,
                        match_entry.confidence = ''low''\<rparr>)"
    unfolding face_match_results fa by simp
  show "fst (face_authentication (face_data st)
                 (req\<lparr>image_data :=
                    Some \<lparr>face_locations = locs, face_encodings = Inr (e # others)\<rparr>\<rparr>))
          = (d < 6 / 10)"
    unfolding fa by simp
qed

theorem first_encoding_only_witness:
  "combined_authentication \<lparr>face_data = [(''A'', [0])], voice_data = []\<rparr>
     \<lparr>mode = ''face'', profile = ''A'',
      image_data = Some \<lparr>face_locations = Inr [(0, 1, 1, 0), (2, 3, 3, 2)],
                         face_encodings = Inr [[1 / 2], [0]]\<rparr>,
      audio_file = None\<rparr>
   = combined_authentication \<lparr>face_data = [(''A'', [0])], voice_data = []\<rparr>
     \<lparr>mode = ''face'', profile = ''A'',
      image_data = Some \<lparr>face_locations = Inr [(0, 1, 1, 0), (2, 3, 3, 2)],
                         face_encodings = Inr [[1 / 2]]\<rparr>,
      audio_file = None\<rparr>
   \<and> face_distance [1 / 2] [0] = Inr (1 / 2)
   \<and> face_distance [0] [0] = Inr 0
   \<and> face_match
       (authentication_results \<lparr>face_data = [(''A'', [0])], voice_data = []\<rparr>
          \<lparr>mode = ''face'', profile = ''A'',
           image_data = Some \<lparr>face_locations = Inr [(0, 1, 1, 0), (2, 3, 3, 2)],
                              face_encodings = Inr [[1 / 2], [0]]\<rparr>,
           audio_file = None\<rparr>)
     = Some \<lparr>match_entry.name = ''A'', similarity = 50, match_entry.confidence = ''medium''\<rparr>
   \<and> face_match
       (authentication_results \<lparr>face_data = [(''A'', [0])], voice_data = []\<rparr>
          \<lparr>mode = ''face'', profile = ''A'',
           image_data = Some \<lparr>face_locations = Inr [(0, 1, 1, 0), (2, 3, 3, 2)],
                              face_encodings = Inr [[0], [1 / 2]]\<rparr>,
           audio_file = None\<rparr>)
     = Some \<lparr>match_entry.name = ''A'', similarity = 100, match_entry.confidence = ''high''\<rparr>"
proof -
  have a: "face_distance [1 / 2] [0] = Inr (1 / 2)" by (simp add: face_distance_single)
  have b: "face_distance [0] [0] = Inr 0" by (simp add: face_distance_single)
  have r50: "py_round 50 2 = 50" by (simp add: py_round_def rint_def Let_def)
  have r100: "py_round 100 2 = 100" by (simp add: py_round_def rint_def Let_def)
  show ?thesis
    using first_encoding_only
      [where st = "\<lparr>face_data = [(''A'', [0])], voice_data = []\<rparr>"
         and req = "\<lparr>mode = ''face'', profile = ''A'', image_data = None, audio_file = None\<rparr>"
         and locs = "Inr [(0, 1, 1, 0), (2, 3, 3, 2)]" and e = "[1 / 2]" and others = "[[0]]"
         and location = "(0, 1, 1, 0)" and locations = "[(2, 3, 3, 2)]"
         and template = "[0]" and d = "1 / 2"]
      first_encoding_only
      [where st = "\<lparr>face_data = [(''A'', [0])], voice_data = []\<rparr>"
         and req = "\<lparr>mode = ''face'', profile = ''A'', image_data = None, audio_file = None\<rparr>"
         and locs = "Inr [(0, 1, 1, 0), (2, 3, 3, 2)]" and e = "[0]" and others = "[[1 / 2]]"
         and location = "(0, 1, 1, 0)" and locations = "[(2, 3, 3, 2)]"
         and template = "[0]" and d = 0]
    by (simp add: a b r50 r100)
qed

subsection \<open>Face identification selects the first minimum\<close>

lemma spec_first_min_index_props:
  assumes "ds \<noteq> []"
  shows "spec_first_min_index ds < length ds"
    and "ds ! spec_first_min_index ds = Min (set ds)"
    and "\<forall>j < spec_first_min_index ds. Min (set ds) < ds ! j"
proof -
  let ?P = "\<lambda>d. d \<noteq> Min (set ds)"
  have "Min (set ds) \<in> set ds" using assms by (simp add: Min_in)
  then have "takeWhile ?P ds \<noteq> ds" by auto
  moreover have "length (takeWhile ?P ds) \<le> length ds" by (rule length_takeWhile_le)
  ultimately show lt: "spec_first_min_index ds < length ds"
    unfolding spec_first_min_index_def
    by (metis le_neq_implies_less takeWhile_eq_take take_all_iff order_refl)
  then have "\<not> ?P (ds ! spec_first_min_index ds)"
    unfolding spec_first_min_index_def by (rule nth_length_takeWhile)
  then show "ds ! spec_first_min_index ds = Min (set ds)" by simp
  show "\<forall>j < spec_first_min_index ds. Min (set ds) < ds ! j"
  proof (intro allI impI)
    fix j assume j: "j < spec_first_min_index ds"
    then have "takeWhile ?P ds ! j \<in> set (takeWhile ?P ds)"
      unfolding spec_first_min_index_def by (rule nth_mem)
    then have "?P (takeWhile ?P ds ! j)" by (auto dest: set_takeWhileD)
    moreover have "takeWhile ?P ds ! j = ds ! j"
      using j unfolding spec_first_min_index_def by (rule takeWhile_nth)
    ultimately have "ds ! j \<noteq> Min (set ds)" by simp
    moreover have "Min (set ds) \<le> ds ! j" using j lt by simp
    ultimately show "Min (set ds) < ds ! j" by simp
  qed
qed

lemma spec_first_min_index_Cons_later:
  assumes "ds \<noteq> []" and "Min (set ds) < d"
  shows "Min (set (d # ds)) = Min (set ds)"
    and "spec_first_min_index (d # ds) = Suc (spec_first_min_index ds)"
proof -
  have "Min (insert d (set ds)) = min d (Min (set ds))"
    using assms(1) by (simp add: Min_insert)
  with assms(2) show m: "Min (set (d # ds)) = Min (set ds)"
    by (simp add: min_def)
  from assms have "d \<noteq> Min (set ds)" by simp
  then show "spec_first_min_index (d # ds) = Suc (spec_first_min_index ds)"
    unfolding spec_first_min_index_def m by simp
qed

lemma spec_first_min_index_Cons_here:
  assumes "\<forall>x\<in>set ds. d \<le> x"
  shows "Min (set (d # ds)) = d" and "spec_first_min_index (d # ds) = 0"
proof -
  show m: "Min (set (d # ds)) = d"
    using assms by (cases "ds = []") (auto simp add: min_def intro: antisym)
  show "spec_first_min_index (d # ds) = 0"
    unfolding spec_first_min_index_def m by simp
qed

lemma below_exists_iff:
  "(\<exists>x\<in>set ds. x < b) \<longleftrightarrow> ds \<noteq> [] \<and> Min (set ds) < (b::real)"
  by (cases "ds = []") (simp_all add: Min_less_iff)

lemma match_face_loop_selects:
  assumes "map (\<lambda>(nm, known). face_distance enc known) g = map Inr ds"
  shows "match_face_loop enc g (m0, b0) =
     Inr (if \<exists>x\<in>set ds. below x b0
          then (Some (fst (g ! spec_first_min_index ds)), Dist (Min (set ds)))
          else (m0, b0))"
  using assms
proof (induction g arbitrary: ds m0 b0)
  case Nil
  then show ?case by simp
next
  case (Cons e g)
  obtain nm known where e: "e = (nm, known)" by (cases e)
  from Cons.prems e obtain d ds' where ds: "ds = d # ds'"
    and d: "face_distance enc known = Inr d"
    and rest: "map (\<lambda>(nm, known). face_distance enc known) g = map Inr ds'"
    by (cases ds) auto
  show ?case
  proof (cases "below d b0")
    case True
    have step: "match_face_loop enc (e # g) (m0, b0) = match_face_loop enc g (Some nm, Dist d)"
      using True d e by simp
    show ?thesis
    proof (cases "ds' \<noteq> [] \<and> Min (set ds') < d")
      case later: True
      then have "Min (set (d # ds')) = Min (set ds')"
        and "spec_first_min_index (d # ds') = Suc (spec_first_min_index ds')"
        by (simp_all add: spec_first_min_index_Cons_later)
      then show ?thesis
        using True later step Cons.IH [OF rest, of "Some nm" "Dist d"] ds
        by (simp add: below_exists_iff)
    next
      case here: False
      then have all: "\<forall>x\<in>set ds'. d \<le> x"
        by (cases "ds' = []") (auto simp add: Min_less_iff not_less)
      have "Min (set (d # ds')) = d"
        by (rule spec_first_min_index_Cons_here(1) [OF all])
      moreover have "spec_first_min_index (d # ds') = 0"
        by (rule spec_first_min_index_Cons_here(2) [OF all])
      ultimately show ?thesis
        using True here step Cons.IH [OF rest, of "Some nm" "Dist d"] ds e
        by (simp add: below_exists_iff)
    qed
  next
    case False
    then obtain b where b0: "b0 = Dist b" and bd: "b \<le> d"
      by (cases b0) auto
    have step: "match_face_loop enc (e # g) (m0, b0) = match_face_loop enc g (m0, b0)"
      using False d e by simp
    show ?thesis
    proof (cases "ds' \<noteq> [] \<and> Min (set ds') < b")
      case True
      with bd have "ds' \<noteq> []" and "Min (set ds') < d" by simp_all
      then have "Min (set (d # ds')) = Min (set ds')"
        and "spec_first_min_index (d # ds') = Suc (spec_first_min_index ds')"
        by (simp_all add: spec_first_min_index_Cons_later)
      then show ?thesis
        using True step Cons.IH [OF rest, of m0 b0] ds b0
        by (simp add: below_exists_iff)
    next
      case no: False
      then show ?thesis
        using False step Cons.IH [OF rest, of m0 b0] ds b0
        by (auto simp add: below_exists_iff)
    qed
  qed
qed

text \<open>
  C4. Let \<open>ds\<close> be the L2 distances from the input to the gallery's templates, in iteration
  order. On a non-empty gallery \<open>match_face\<close> with threshold 0.6 selects the entry at the
  first index where \<open>ds\<close> attains its minimum (no distance is smaller, every earlier one is
  strictly larger); it returns the score \<open>max 0 (1 - minimum) * 100\<close> in every case, and the
  selected name exactly when the minimum is below 0.6. On an empty gallery it returns no
  match and score 0.
\<close>

theorem match_face_selects_minimum:
  assumes "map (\<lambda>(nm, known). face_distance enc known) g = map Inr ds"
  shows "(g = [] \<longrightarrow> match_face enc g (6 / 10) = Inr (None, 0))
     \<and> (g \<noteq> [] \<longrightarrow>
          match_face_loop enc g (None, Infinity)
            = Inr (Some (fst (g ! spec_first_min_index ds)), Dist (Min (set ds)))
        \<and> match_face enc g (6 / 10)
            = Inr (if Min (set ds) < 6 / 10 then Some (fst (g ! spec_first_min_index ds)) else None,
                   max 0 (1 - Min (set ds)) * 100)
        \<and> spec_first_min_index ds < length g
        \<and> ds ! spec_first_min_index ds = Min (set ds)
        \<and> (\<forall>j < length ds. ds ! spec_first_min_index ds \<le> ds ! j)
        \<and> (\<forall>j < spec_first_min_index ds. ds ! spec_first_min_index ds < ds ! j))"
proof (intro conjI impI)
  assume "g = []"
  then show "match_face enc g (6 / 10) = Inr (None, 0)"
    by (simp add: match_face_def)
next
  assume g: "g \<noteq> []"
  from assms have len: "length ds = length g"
    by (metis length_map)
  with g have ds: "ds \<noteq> []" by auto
  then have ex: "\<exists>x\<in>set ds. below x Infinity" by (cases ds) auto
  show loop: "match_face_loop enc g (None, Infinity)
      = Inr (Some (fst (g ! spec_first_min_index ds)), Dist (Min (set ds)))"
    using match_face_loop_selects [OF assms, of None Infinity] ex by simp
  show "match_face enc g (6 / 10)
      = Inr (if Min (set ds) < 6 / 10 then Some (fst (g ! spec_first_min_index ds)) else None,
             max 0 (1 - Min (set ds)) * 100)"
    by (simp add: match_face_def loop)
  show "spec_first_min_index ds < length g"
    using spec_first_min_index_props(1) [OF ds] len by simp
  show eq: "ds ! spec_first_min_index ds = Min (set ds)"
    by (rule spec_first_min_index_props(2) [OF ds])
  show "\<forall>j < length ds. ds ! spec_first_min_index ds \<le> ds ! j"
    by (simp add: eq)
  show "\<forall>j < spec_first_min_index ds. ds ! spec_first_min_index ds < ds ! j"
    using spec_first_min_index_props(3) [OF ds] by (simp add: eq)
qed

theorem match_face_selects_minimum_witness:
  "match_face [0] [(''A'', [1]), (''B'', [1 / 2]), (''C'', [- 1 / 2])] (6 / 10)
     = Inr (Some ''B'', 50)
   \<and> match_face [0] [(''A'', [4 / 5])] (6 / 10) = Inr (None, 20)"
proof -
  have a: "map (\<lambda>(nm, known). face_distance [0] known)
      [(''A'', [1]), (''B'', [1 / 2]), (''C'', [- 1 / 2])] = map Inr [1, 1 / 2, 1 / 2]"
    by (simp add: face_distance_single)
  have b: "map (\<lambda>(nm, known). face_distance [0] known) [(''A'', [4 / 5])] = map Inr [4 / 5]"
    by (simp add: face_distance_single)
  show ?thesis
    using match_face_selects_minimum [OF a] match_face_selects_minimum [OF b]
    by (simp add: spec_first_min_index_def)
qed

subsection \<open>Voice identification tracks the first maximum\<close>

lemma spec_first_max_index_props:
  assumes "ss \<noteq> []"
  shows "spec_first_max_index ss < length ss"
    and "ss ! spec_first_max_index ss = Max (set ss)"
    and "\<forall>j < spec_first_max_index ss. ss ! j < Max (set ss)"
proof -
  let ?P = "\<lambda>s. s \<noteq> Max (set ss)"
  have "Max (set ss) \<in> set ss" using assms by (simp add: Max_in)
  then have "takeWhile ?P ss \<noteq> ss" by auto
  moreover have "length (takeWhile ?P ss) \<le> length ss" by (rule length_takeWhile_le)
  ultimately show lt: "spec_first_max_index ss < length ss"
    unfolding spec_first_max_index_def
    by (metis le_neq_implies_less takeWhile_eq_take take_all_iff order_refl)
  then have "\<not> ?P (ss ! spec_first_max_index ss)"
    unfolding spec_first_max_index_def by (rule nth_length_takeWhile)
  then show "ss ! spec_first_max_index ss = Max (set ss)" by simp
  show "\<forall>j < spec_first_max_index ss. ss ! j < Max (set ss)"
  proof (intro allI impI)
    fix j assume j: "j < spec_first_max_index ss"
    then have "takeWhile ?P ss ! j \<in> set (takeWhile ?P ss)"
      unfolding spec_first_max_index_def by (rule nth_mem)
    then have "?P (takeWhile ?P ss ! j)" by (auto dest: set_takeWhileD)
    moreover have "takeWhile ?P ss ! j = ss ! j"
      using j unfolding spec_first_max_index_def by (rule takeWhile_nth)
    ultimately have "ss ! j \<noteq> Max (set ss)" by simp
    moreover have "ss ! j \<le> Max (set ss)" using j lt by simp
    ultimately show "ss ! j < Max (set ss)" by simp
  qed
qed

lemma spec_first_max_index_Cons_later:
  assumes "ss \<noteq> []" and "s < Max (set ss)"
  shows "Max (set (s # ss)) = Max (set ss)"
    and "spec_first_max_index (s # ss) = Suc (spec_first_max_index ss)"
proof -
  have "Max (insert s (set ss)) = max s (Max (set ss))"
    using assms(1) by (simp add: Max_insert)
  with assms(2) show m: "Max (set (s # ss)) = Max (set ss)"
    by (simp add: max_def)
  from assms have "s \<noteq> Max (set ss)" by simp
  then show "spec_first_max_index (s # ss) = Suc (spec_first_max_index ss)"
    unfolding spec_first_max_index_def m by simp
qed

lemma spec_first_max_index_Cons_here:
  assumes "\<forall>x\<in>set ss. x \<le> s"
  shows "Max (set (s # ss)) = s" and "spec_first_max_index (s # ss) = 0"
proof -
  show m: "Max (set (s # ss)) = s"
    using assms by (cases "ss = []") (auto simp add: max_def intro: antisym)
  show "spec_first_max_index (s # ss) = 0"
    unfolding spec_first_max_index_def m by simp
qed

lemma above_exists_iff:
  "(\<exists>x\<in>set ss. h < x) \<longleftrightarrow> ss \<noteq> [] \<and> (h::real) < Max (set ss)"
  by (cases "ss = []") (simp_all add: Max_gr_iff)

lemma voice_loop_selects:
  assumes "map (\<lambda>(nm, stored). cosine_similarity emb stored) g = map (\<lambda>s. Inr (Num s)) ss"
  shows "voice_loop emb g (m0, h0) =
     Inr (if \<exists>x\<in>set ss. h0 < x
          then (Some (fst (g ! spec_first_max_index ss)), Max (set ss))
          else (m0, h0))"
  using assms
proof (induction g arbitrary: ss m0 h0)
  case Nil
  then show ?case by simp
next
  case (Cons e g)
  obtain nm stored where e: "e = (nm, stored)" by (cases e)
  from Cons.prems e obtain s ss' where ss: "ss = s # ss'"
    and s: "cosine_similarity emb stored = Inr (Num s)"
    and rest: "map (\<lambda>(nm, stored). cosine_similarity emb stored) g
               = map (\<lambda>s. Inr (Num s)) ss'"
    by (cases ss) auto
  show ?case
  proof (cases "h0 < s")
    case True
    have step: "voice_loop emb (e # g) (m0, h0) = voice_loop emb g (Some nm, s)"
      using True s e by simp
    show ?thesis
    proof (cases "ss' \<noteq> [] \<and> s < Max (set ss')")
      case later: True
      then have "Max (set (s # ss')) = Max (set ss')"
        and "spec_first_max_index (s # ss') = Suc (spec_first_max_index ss')"
        by (simp_all add: spec_first_max_index_Cons_later)
      then show ?thesis
        using True later step Cons.IH [OF rest, of "Some nm" s] ss
        by (auto simp add: above_exists_iff)
    next
      case here: False
      then have all: "\<forall>x\<in>set ss'. x \<le> s"
        by (cases "ss' = []") (auto simp add: Max_gr_iff not_less)
      have "Max (set (s # ss')) = s"
        by (rule spec_first_max_index_Cons_here(1) [OF all])
      moreover have "spec_first_max_index (s # ss') = 0"
        by (rule spec_first_max_index_Cons_here(2) [OF all])
      ultimately show ?thesis
        using True here step Cons.IH [OF rest, of "Some nm" s] ss e
        by (auto simp add: above_exists_iff)
    qed
  next
    case False
    have step: "voice_loop emb (e # g) (m0, h0) = voice_loop emb g (m0, h0)"
      using False s e by simp
    show ?thesis
    proof (cases "ss' \<noteq> [] \<and> h0 < Max (set ss')")
      case True
      with False have "ss' \<noteq> []" and "s < Max (set ss')" by simp_all
      then have "Max (set (s # ss')) = Max (set ss')"
        and "spec_first_max_index (s # ss') = Suc (spec_first_max_index ss')"
        by (simp_all add: spec_first_max_index_Cons_later)
      then show ?thesis
        using True step Cons.IH [OF rest, of m0 h0] ss
        by (auto simp add: above_exists_iff)
    next
      case no: False
      then show ?thesis
        using False step Cons.IH [OF rest, of m0 h0] ss
        by (auto simp add: above_exists_iff)
    qed
  qed
qed

lemma py_round_zero: "py_round 0 n = 0"
  by (simp add: py_round_def rint_def)

lemma cosine_similarity_5_12: "cosine_similarity [1, 0] [5, 12] = Inr (Num (5 / 13))"
proof -
  have "sqrt 169 = 13" by (rule real_sqrt_unique) simp_all
  then show ?thesis by (simp add: cosine_similarity_def np_dot_def np_norm_def)
qed

text \<open>
  C3 as stated: on a non-empty gallery a best candidate is always computed and its score
  \<open>max 0 (similarity * 100)\<close> is reported as \<open>best_similarity\<close>. For the template \<open>[5, 12]\<close> and
  the input \<open>[1, 0]\<close> the similarity is \<open>5/13\<close> and the score \<open>500/13\<close>, and \<open>38.46\<close> is
  reported: the handler rounds to two decimals. For the template \<open>[-1]\<close> and the input \<open>[1]\<close>
  the similarity is \<open>-1\<close>, which is not above the initial \<open>-1\<close>: the loop ends with no
  candidate.
\<close>

theorem voice_identification_counterexample:
  "fst (recognize_voice \<lparr>face_data = [], voice_data = [(''A'', [5, 12])]\<rparr>
          \<lparr>wav_data = Inr 16000, embed_utterance = Inr [1, 0]\<rparr>)
     = JSONResponse 200
         \<lparr>voice_response.success = True,
          voice_response.message = ''Voice processed successfully'',
          voice_response.matches = [], best_similarity = Some (3846 / 100)\<rparr>
   \<and> cosine_similarity [1, 0] [5, 12] = Inr (Num (5 / 13))
   \<and> max 0 (5 / 13 * 100) = (500 / 13 :: real)
   \<and> (3846 / 100 :: real) \<noteq> 500 / 13
   \<and> cosine_similarity [1] [- 1] = Inr (Num (- 1))
   \<and> voice_loop [1] [(''A'', [- 1])] (None, - 1) = Inr (None, - 1)"
  by (simp add: recognize_voice_def voice_identify_def cosine_similarity_5_12
      cosine_similarity_single Let_def py_round_def rint_def)

text \<open>
  C3, amended. Let \<open>ss\<close> be the cosine similarities of the input embedding with the
  templates of a non-empty gallery, in iteration order (all defined). When the highest
  similarity exceeds \<open>-1\<close> the loop ends on the first entry that attains it. The content
  reports \<open>max 0 (highest * 100)\<close> rounded to two decimals as \<open>best_similarity\<close>, and one match
  entry exactly when the highest similarity is at least 0.60, with that rounded score and
  confidence \<open>high\<close> when the unrounded score exceeds 75 and \<open>medium\<close> otherwise; below 0.60
  the list is empty. (A candidate whose name is the empty string is reported as no
  candidate: no entry and \<open>best_similarity\<close> 0.)
\<close>

theorem voice_identification_outcome:
  assumes "wav_data aud = Inr n" and "16000 \<le> n"
    and "embed_utterance aud = Inr emb"
    and "map (\<lambda>(nm, stored). cosine_similarity emb stored) (voice_data st)
         = map (\<lambda>s. Inr (Num s)) ss"
    and "voice_data st \<noteq> []"
  shows "voice_loop emb (voice_data st) (None, - 1)
       = Inr (if - 1 < Max (set ss)
              then (Some (fst (voice_data st ! spec_first_max_index ss)), Max (set ss))
              else (None, - 1))
     \<and> fst (recognize_voice st aud)
       = JSONResponse 200
           \<lparr>voice_response.success = True,
            voice_response.message = ''Voice processed successfully'',
            voice_response.matches =
              (if 60 / 100 \<le> Max (set ss) \<and> fst (voice_data st ! spec_first_max_index ss) \<noteq> []
               then [\<lparr>match_entry.name = fst (voice_data st ! spec_first_max_index ss),
                      similarity = py_round (max 0 (Max (set ss) * 100)) 2,
                      match_entry.confidence =
                        (if max 0 (Max (set ss) * 100) > 75 then ''high'' else ''medium'')\<rparr>]
               else []),
            best_similarity =
              Some (if fst (voice_data st ! spec_first_max_index ss) \<noteq> []
                    then py_round (max 0 (Max (set ss) * 100)) 2 else 0)\<rparr>
     \<and> spec_first_max_index ss < length (voice_data st)
     \<and> ss ! spec_first_max_index ss = Max (set ss)
     \<and> (\<forall>j < length ss. ss ! j \<le> ss ! spec_first_max_index ss)
     \<and> (\<forall>j < spec_first_max_index ss. ss ! j < ss ! spec_first_max_index ss)"
proof -
  let ?g = "voice_data st"
  let ?M = "Max (set ss)"
  from assms(4) have len: "length ss = length ?g" by (metis length_map)
  with assms(5) have ss: "ss \<noteq> []" by auto
  have ex: "(\<exists>x\<in>set ss. - 1 < x) \<longleftrightarrow> - 1 < ?M"
    using ss by (simp add: above_exists_iff)
  have loop: "voice_loop emb ?g (None, - 1)
       = Inr (if - 1 < ?M then (Some (fst (?g ! spec_first_max_index ss)), ?M) else (None, - 1))"
    using voice_loop_selects [OF assms(4), of None "- 1"] ex by simp
  have low: "max 0 (?M * 100) = 0" if "\<not> - 1 < ?M"
    using that by (simp add: max_def)
  have ident: "voice_identify emb ?g
       = Inr \<lparr>voice_response.success = True,
            voice_response.message = ''Voice processed successfully'',
            voice_response.matches =
              (if 60 / 100 \<le> ?M \<and> fst (?g ! spec_first_max_index ss) \<noteq> []
               then [\<lparr>match_entry.name = fst (?g ! spec_first_max_index ss),
                      similarity = py_round (max 0 (?M * 100)) 2,
                      match_entry.confidence =
                        (if max 0 (?M * 100) > 75 then ''high'' else ''medium'')\<rparr>]
               else []),
            best_similarity =
              Some (if fst (?g ! spec_first_max_index ss) \<noteq> []
                    then py_round (max 0 (?M * 100)) 2 else 0)\<rparr>"
  proof (cases "- 1 < ?M")
    case True
    then show ?thesis by (simp add: voice_identify_def loop Let_def)
  next
    case False
    then have "\<not> 60 / 100 \<le> ?M" by simp
    with False show ?thesis
      by (simp add: voice_identify_def loop Let_def low py_round_zero)
  qed
  have eq: "ss ! spec_first_max_index ss = ?M"
    by (rule spec_first_max_index_props(2) [OF ss])
  have "fst (recognize_voice st aud) = JSONResponse 200
           \<lparr>voice_response.success = True,
            voice_response.message = ''Voice processed successfully'',
            voice_response.matches =
              (if 60 / 100 \<le> ?M \<and> fst (?g ! spec_first_max_index ss) \<noteq> []
               then [\<lparr>match_entry.name = fst (?g ! spec_first_max_index ss),
                      similarity = py_round (max 0 (?M * 100)) 2,
                      match_entry.confidence =
                        (if max 0 (?M * 100) > 75 then ''high'' else ''medium'')\<rparr>]
               else []),
            best_similarity =
              Some (if fst (?g ! spec_first_max_index ss) \<noteq> []
                    then py_round (max 0 (?M * 100)) 2 else 0)\<rparr>"
    using assms(1-3) by (simp add: recognize_voice_def ident)
  moreover have "spec_first_max_index ss < length ?g"
    using spec_first_max_index_props(1) [OF ss] len by simp
  moreover have "\<forall>j < length ss. ss ! j \<le> ss ! spec_first_max_index ss"
    by (simp add: eq)
  moreover have "\<forall>j < spec_first_max_index ss. ss ! j < ss ! spec_first_max_index ss"
    using spec_first_max_index_props(3) [OF ss] by (simp add: eq)
  ultimately show ?thesis using loop eq by blast
qed

theorem voice_identification_outcome_witness:
  "fst (recognize_voice \<lparr>face_data = [], voice_data = [(''A'', [- 1]), (''B'', [1]), (''C'', [2])]\<rparr>
          \<lparr>wav_data = Inr 20000, embed_utterance = Inr [3]\<rparr>)
     = JSONResponse 200
         \<lparr>voice_response.success = True,
          voice_response.message = ''Voice processed successfully'',
          voice_response.matches =
            [\<lparr>match_entry.name = ''B'', similarity = 100, match_entry.confidence = ''high''\<rparr>],
          best_similarity = Some 100\<rparr>"
proof -
  have a: "map (\<lambda>(nm, stored). cosine_similarity [3] stored)
        (voice_data \<lparr>face_data = [], voice_data = [(''A'', [- 1]), (''B'', [1]), (''C'', [2])]\<rparr>)
      = map (\<lambda>s. Inr (Num s)) [- 1, 1, 1]"
    by (simp add: cosine_similarity_single)
  show ?thesis
    using voice_identification_outcome
      [where aud = "\<lparr>wav_data = Inr 20000, embed_utterance = Inr [3]\<rparr>" and n = 20000
         and emb = "[3]", OF _ _ _ a]
    by (simp add: spec_first_max_index_def py_round_def rint_def)
qed

end
